theory Spec2Isabelle
  imports Main
begin

section \<open>Strings and library routines used by ip-freely\<close>

text \<open>
  A Python \<open>str\<close> is modelled as a \<open>string\<close>, one \<open>char\<close> per code point, so the
  model covers the strings whose code points are below 256. On that range the regular
  expression class \<open>\d\<close> is exactly the ten ASCII digits, and \<open>str.strip\<close> removes
  the characters listed in \<open>py_isspace\<close>. A \<open>bytes\<close> value is a \<open>string\<close> too, one
  \<open>char\<close> per byte.
\<close>

definition NL :: char where
  "NL = CHR 0x0A"

definition py_isdigit :: "char \<Rightarrow> bool" where
  "py_isdigit c = (c \<in> set ''0123456789'')"

definition py_isspace :: "char \<Rightarrow> bool" where
  "py_isspace c = (c \<in> set [CHR 0x09, CHR 0x0A, CHR 0x0B, CHR 0x0C, CHR 0x0D,
                             CHR 0x1C, CHR 0x1D, CHR 0x1E, CHR 0x1F, CHR 0x20,
                             CHR 0x85, CHR 0xA0])"

text \<open>\<open>s.strip()\<close>: leading and trailing whitespace removed.\<close>

definition strip :: "string \<Rightarrow> string" where
  "strip s = rev (dropWhile py_isspace (rev (dropWhile py_isspace s)))"

text \<open>\<open>s.split(sep)\<close> for a one-character separator: never the empty list.\<close>

fun split_on :: "char \<Rightarrow> string \<Rightarrow> string list" where
  "split_on sep [] = [[]]"
| "split_on sep (c # cs) =
     (if c = sep then [] # split_on sep cs
      else (case split_on sep cs of
              [] \<Rightarrow> [[c]]
            | x # xs \<Rightarrow> (c # x) # xs))"

text \<open>\<open>sep.join(xs)\<close>.\<close>

fun join :: "string \<Rightarrow> string list \<Rightarrow> string" where
  "join sep [] = []"
| "join sep [x] = x"
| "join sep (x # y # ys) = x @ sep @ join sep (y # ys)"

text \<open>\<open>str(n)\<close> for a Python int, as the f-string writes the TTL.\<close>

definition digit_char :: "nat \<Rightarrow> char" where
  "digit_char d = ''0123456789'' ! (d mod 10)"

function str_nat :: "nat \<Rightarrow> string" where
  "str_nat n = (if n < 10 then [digit_char n] else str_nat (n div 10) @ [digit_char (n mod 10)])"
  by pat_completeness auto
termination
  by (relation "measure id") auto

declare str_nat.simps [simp del]

definition str_int :: "int \<Rightarrow> string" where
  "str_int i = (if i < 0 then CHR ''-'' # str_nat (nat (- i)) else str_nat (nat i))"

section \<open>Address validators\<close>

subsection \<open>\<open>is_ipv4\<close>: the regular expression, by backtracking\<close>

text \<open>
  \<open>re.match(r'^\d{1,3}\.\d{1,3}\.\d{1,3}\.\d{1,3}$', ip)\<close>. Each piece of the pattern
  maps an input to the list of inputs that can remain after the piece has matched, in
  the order the backtracking matcher tries them. \<open>rx_digits n\<close> is \<open>\d{1,n}\<close>,
  \<open>rx_dot\<close> is \<open>\.\<close>, and \<open>rx_end\<close> is \<open>$\<close> without the MULTILINE flag: it matches
  at the end of the string and also just before a newline that ends the string.
  The match object is truthy and \<open>None\<close> is falsy, so the result is the truth value.
\<close>

fun rx_digits :: "nat \<Rightarrow> string \<Rightarrow> string list" where
  "rx_digits 0 s = []"
| "rx_digits (Suc n) [] = []"
| "rx_digits (Suc n) (c # cs) = (if py_isdigit c then rx_digits n cs @ [cs] else [])"

fun rx_dot :: "string \<Rightarrow> string list" where
  "rx_dot [] = []"
| "rx_dot (c # cs) = (if c = CHR ''.'' then [cs] else [])"

definition rx_end :: "string \<Rightarrow> bool" where
  "rx_end s = (s = [] \<or> s = [NL])"

definition rx_group_dot :: "string \<Rightarrow> string list" where
  "rx_group_dot s = concat (map rx_dot (rx_digits 3 s))"

definition is_ipv4 :: "string \<Rightarrow> bool" where
  "is_ipv4 ip =
     list_ex rx_end
       (concat (map (rx_digits 3)
         (concat (map rx_group_dot
           (concat (map rx_group_dot (rx_group_dot ip)))))))"

subsection \<open>\<open>is_ipv6\<close>: \<open>socket.inet_pton(AF_INET6, ip)\<close>\<close>

text \<open>
  The C library's \<open>inet_pton\<close> for \<open>AF_INET6\<close>, following the GNU C library's
  routine: groups of up to four hexadecimal digits separated by colons, at most one
  \<open>::\<close>, and an optional dotted-decimal IPv4 tail. \<open>tp\<close> counts the bytes stored so
  far (of 16), \<open>colonp\<close> records that \<open>::\<close> was seen, \<open>curtok\<close> is the input from
  the start of the current group.
\<close>

definition hex_digit_value :: "char \<Rightarrow> nat option" where
  "hex_digit_value c =
     (if c \<in> set ''0123456789'' then Some (of_char c - 48)
      else if c \<in> set ''abcdef'' then Some (of_char c - 87)
      else if c \<in> set ''ABCDEF'' then Some (of_char c - 55)
      else None)"

fun pton4_loop :: "string \<Rightarrow> bool \<Rightarrow> nat \<Rightarrow> nat \<Rightarrow> bool" where
  "pton4_loop [] saw_digit octets cur = (\<not> octets < 4)"
| "pton4_loop (ch # src) saw_digit octets cur =
     (if py_isdigit ch then
        (let new = cur * 10 + (of_char ch - 48) in
         if saw_digit \<and> cur = 0 then False
         else if new > 255 then False
         else if \<not> saw_digit then
           (if octets + 1 > 4 then False else pton4_loop src True (octets + 1) new)
         else pton4_loop src True octets new)
      else if ch = CHR ''.'' \<and> saw_digit then
        (if octets = 4 then False else pton4_loop src False octets 0)
      else False)"

definition inet_pton4 :: "string \<Rightarrow> bool" where
  "inet_pton4 src = pton4_loop src False 0 0"

fun pton6_loop ::
  "string \<Rightarrow> nat \<Rightarrow> bool \<Rightarrow> nat \<Rightarrow> nat \<Rightarrow> string \<Rightarrow> (nat \<times> bool \<times> nat) option" where
  "pton6_loop [] tp colonp xdigits_seen val curtok = Some (tp, colonp, xdigits_seen)"
| "pton6_loop (ch # src) tp colonp xdigits_seen val curtok =
     (case hex_digit_value ch of
        Some digit \<Rightarrow>
          (if xdigits_seen = 4 then None
           else if val * 16 + digit > 0xffff then None
           else pton6_loop src tp colonp (xdigits_seen + 1) (val * 16 + digit) curtok)
      | None \<Rightarrow>
          (if ch = CHR '':'' then
             (if xdigits_seen = 0 then
                (if colonp then None else pton6_loop src tp True 0 val src)
              else if src = [] then None
              else if tp + 2 > 16 then None
              else pton6_loop src (tp + 2) colonp 0 0 src)
           else if ch = CHR ''.'' \<and> tp + 4 \<le> 16 \<and> inet_pton4 curtok then
             Some (tp + 4, colonp, 0)
           else None))"

definition pton6_finish :: "(nat \<times> bool \<times> nat) option \<Rightarrow> bool" where
  "pton6_finish r =
     (case r of
        None \<Rightarrow> False
      | Some (tp, colonp, xdigits_seen) \<Rightarrow>
          (if xdigits_seen > 0 \<and> tp + 2 > 16 then False
           else (let tp' = (if xdigits_seen > 0 then tp + 2 else tp) in
                 if colonp then tp' \<noteq> 16 else tp' = 16)))"

definition inet_pton6 :: "string \<Rightarrow> bool" where
  "inet_pton6 src =
     (case src of
        [] \<Rightarrow> False
      | c # rest \<Rightarrow>
          (if c = CHR '':'' then
             (case rest of
                [] \<Rightarrow> False
              | d # _ \<Rightarrow> if d \<noteq> CHR '':'' then False
                         else pton6_finish (pton6_loop rest 0 False 0 0 rest))
           else pton6_finish (pton6_loop src 0 False 0 0 src)))"

text \<open>
  Exceptions. Every constructor stands for a subclass of Python's \<open>Exception\<close>.
\<close>

datatype exn =
    HTTPError | UnicodeDecodeError | AssertionError | ValueError | TypeError
  | GaiError | IndexError | DNSError | OSError

text \<open>
  \<open>is_ipv6\<close> catches \<open>socket.error\<close> only. \<open>socket.inet_pton\<close> raises
  \<open>ValueError\<close> (embedded null character) before the C routine is called when the
  string holds a NUL, and that exception passes through \<open>is_ipv6\<close>.
\<close>

definition is_ipv6 :: "string \<Rightarrow> exn + bool" where
  "is_ipv6 ip =
     (if CHR 0x00 \<in> set ip then Inl ValueError
      else if inet_pton6 ip then Inr True
      else Inr False)"

definition is_ip :: "string \<Rightarrow> string \<Rightarrow> exn + bool" where
  "is_ip ip dnstype =
     (if dnstype = ''A'' then Inr (is_ipv4 ip)
      else if dnstype = ''AAAA'' then is_ipv6 ip
      else if is_ipv4 ip then Inr True
      else is_ipv6 ip)"

section \<open>The environment of one run\<close>

text \<open>
  Everything the program reads from outside is a field of \<open>world\<close>: whether a
  path is a regular file; the outcome of the HTTPS GET followed by
  \<open>r.data.decode("utf-8")\<close> (the decoded body, or the exception either step raised);
  the outcome of \<open>socket.getaddrinfo(server, 80)\<close>, each returned entry reduced to
  the host of its socket address; the outcome of constructing \<open>Nslookup\<close> for a
  server and calling \<open>dns_lookup\<close> or \<open>dns_lookup6\<close>, reduced to the \<open>answer\<close>
  list; the name chosen by \<open>tempfile.NamedTemporaryFile\<close>; and the outcome of
  \<open>Popen\<close> on a command line followed by \<open>communicate\<close>: standard output,
  standard error and return code of a subprocess that completes, or the exception raised
  when it cannot be launched. Creating, writing and removing the temporary file and
  printing are taken to succeed.
\<close>

record world =
  isfile :: "string \<Rightarrow> bool"
  http_get :: "string \<Rightarrow> exn + string"
  getaddrinfo :: "string \<Rightarrow> exn + string list"
  dns_lookup :: "string \<Rightarrow> string \<Rightarrow> exn + string list"
  dns_lookup6 :: "string \<Rightarrow> string \<Rightarrow> exn + string list"
  tmpname :: string
  subprocess :: "string list \<Rightarrow> exn + string \<times> string \<times> int"

text \<open>The namespace returned by \<open>parser.parse_args()\<close>.\<close>

record args =
  arg_exe :: string
  arg_privkey :: "string option"
  arg_server :: "string option"
  arg_force :: bool
  arg_ttl :: int
  arg_hostname :: "string option"
  arg_dnstype :: string
  arg_deleteonly :: bool
  arg_remoteiplookup :: "string option"

text \<open>
  What a run does to the outside, in order. \<open>Print fmt vals\<close> is
  \<open>print(fmt % vals)\<close>; the rendering of the values is left to Python.
\<close>

datatype pyval = Str string | Bytes string | StrList "string list" | Exc exn | NoneVal

datatype event =
    Print string "pyval list"
  | HttpGet string
  | GetAddrInfo string
  | DnsLookup string string
  | DnsLookup6 string string
  | TempWrite string string
  | Popen "string list"
  | Remove string

text \<open>
  How the process ends: \<open>ExitOK\<close> is \<open>sys.exit()\<close> or the return of \<open>main\<close>
  (status 0); \<open>ExitMsg fmt vals\<close> is \<open>sys.exit(fmt % vals)\<close>, the message on
  standard error and status 1; \<open>Uncaught e\<close> is an exception that leaves \<open>main\<close>
  (traceback, status 1).
\<close>

datatype exit_status = ExitOK | ExitMsg string "pyval list" | Uncaught exn

fun exit_code :: "exit_status \<Rightarrow> nat" where
  "exit_code ExitOK = 0"
| "exit_code (ExitMsg fmt vals) = 1"
| "exit_code (Uncaught e) = 1"

text \<open>
  \<open>DEBUG = os.getenv('IPDEBUG')\<close>: \<open>None\<close> when unset. \<open>if DEBUG:\<close> tests
  \<open>truthy\<close>; \<open>run_nsupdate\<close> tests \<open>DEBUG is not None\<close>.
\<close>

definition truthy :: "string option \<Rightarrow> bool" where
  "truthy d = (case d of None \<Rightarrow> False | Some s \<Rightarrow> s \<noteq> [])"

definition dbg :: "bool \<Rightarrow> event \<Rightarrow> event list" where
  "dbg b e = (if b then [e] else [])"

definition opt_val :: "string option \<Rightarrow> pyval" where
  "opt_val x = (case x of None \<Rightarrow> NoneVal | Some s \<Rightarrow> Str s)"

section \<open>The program\<close>

definition getargs :: "string option \<Rightarrow> args \<Rightarrow> args \<times> event list" where
  "getargs DEBUG parsed =
     (let a = (if arg_remoteiplookup parsed = None then
                 (if arg_dnstype parsed = ''A''
                  then parsed\<lparr>arg_remoteiplookup := Some ''https://api.ipify.org''\<rparr>
                  else parsed\<lparr>arg_remoteiplookup := Some ''https://api64.ipify.org''\<rparr>)
               else parsed)
      in (a, dbg (truthy DEBUG) (Print ''Set iplookup to %s'' [opt_val (arg_remoteiplookup a)])))"

text \<open>The f-string \<open>content\<close> of \<open>create_nsupdate_contents\<close>.\<close>

definition nsupdate_content ::
  "string \<Rightarrow> string \<Rightarrow> string \<Rightarrow> string \<Rightarrow> int \<Rightarrow> string \<Rightarrow> bool \<Rightarrow> string" where
  "nsupdate_content server domain hostname newip ttl dnstype deleteonly =
     (let del_line = ''update delete '' @ hostname @ ''. '' @ dnstype;
          add_line = (if deleteonly then []
                      else ''update add '' @ hostname @ ''. '' @ str_int ttl @ '' '' @ dnstype
                           @ '' '' @ newip)
      in ''server '' @ server @ ''.'' @ [NL] @
         ''debug yes'' @ [NL] @
         ''zone '' @ domain @ ''.'' @ [NL] @
         del_line @ [NL] @
         add_line @ [NL] @
         ''show'' @ [NL] @
         ''send'' @ [NL] @
         ''quit'')"

definition create_nsupdate_contents ::
  "string option \<Rightarrow> world \<Rightarrow> string \<Rightarrow> string \<Rightarrow> string \<Rightarrow> string \<Rightarrow> int \<Rightarrow> string \<Rightarrow> bool
     \<Rightarrow> string \<times> event list" where
  "create_nsupdate_contents DEBUG w server domain hostname newip ttl dnstype deleteonly =
     (let content = nsupdate_content server domain hostname newip ttl dnstype deleteonly
      in (tmpname w,
          dbg (truthy DEBUG \<and> deleteonly) (Print ''delete only'' []) @
          [TempWrite (tmpname w) content] @
          dbg (truthy DEBUG) (Print (''---'' @ [NL] @ ''%s'' @ [NL] @ ''---'' @ [NL]) [Str content])))"

definition run_nsupdate ::
  "string option \<Rightarrow> world \<Rightarrow> string \<Rightarrow> string \<Rightarrow> string
     \<Rightarrow> (exn + string \<times> string \<times> int) \<times> event list" where
  "run_nsupdate DEBUG w exe privkey conffile =
     (let cmd = [exe, ''-k'', privkey, ''-v'', conffile] in
      case subprocess w cmd of
        Inl exc \<Rightarrow> (Inl exc, [Popen cmd])
      | Inr (stdout, stderr, rc) \<Rightarrow>
          (Inr (stdout, stderr, rc),
           [Popen cmd] @
           dbg (DEBUG \<noteq> None)
             (Print (''%s'' @ [NL, NL] @ ''%s'' @ [NL]) [Bytes stdout, Bytes stderr])))"

text \<open>
  \<open>get_remote_ip\<close>: the body of the \<open>try\<close>, then the handler. A lookup URL of
  \<open>None\<close> makes the request raise inside the \<open>try\<close>.
\<close>

definition get_remote_ip_try ::
  "world \<Rightarrow> string option \<Rightarrow> string \<Rightarrow> (exn + string) \<times> event list" where
  "get_remote_ip_try w remoteiplookup dnstype =
     (case remoteiplookup of
        None \<Rightarrow> (Inl TypeError, [])
      | Some url \<Rightarrow>
          (case http_get w url of
             Inl exc \<Rightarrow> (Inl exc, [HttpGet url])
           | Inr body \<Rightarrow>
               (let ip = strip body in
                case is_ip ip dnstype of
                  Inl exc \<Rightarrow> (Inl exc, [HttpGet url])
                | Inr ok \<Rightarrow> if ok then (Inr ip, [HttpGet url])
                            else (Inl AssertionError, [HttpGet url]))))"

definition get_remote_ip ::
  "string option \<Rightarrow> world \<Rightarrow> string option \<Rightarrow> string \<Rightarrow> string option \<times> event list" where
  "get_remote_ip DEBUG w remoteiplookup dnstype =
     (case get_remote_ip_try w remoteiplookup dnstype of
        (r, ev) \<Rightarrow>
          (case r of
             Inr ip \<Rightarrow> (Some ip, ev)
           | Inl exc \<Rightarrow>
               (None,
                ev @ dbg (truthy DEBUG) (Print ''get_remote_ip exception: %s'' [Exc exc]))))"

text \<open>
  \<open>get_current_ips\<close>. \<open>resolve_server\<close> is the first statement of the \<open>try\<close>:
  \<open>getaddrinfo(server, 80)[-1][-1][0]\<close> is the host of the last entry and raises
  \<open>IndexError\<close> on an empty list. \<open>all_is_ip\<close> is
  \<open>all(is_ip(ip, dnstype) for ip in ips)\<close>, which stops at the first falsy value.
\<close>

definition resolve_server ::
  "string option \<Rightarrow> world \<Rightarrow> string \<Rightarrow> (exn + string) \<times> event list" where
  "resolve_server DEBUG w server =
     (case is_ip server ''ANY'' of
        Inl exc \<Rightarrow> (Inl exc, [])
      | Inr literal \<Rightarrow>
          if literal then (Inr server, [])
          else (case getaddrinfo w server of
                  Inl exc \<Rightarrow> (Inl exc, [GetAddrInfo server])
                | Inr addrs \<Rightarrow>
                    (case addrs of
                       [] \<Rightarrow> (Inl IndexError, [GetAddrInfo server])
                     | _ # _ \<Rightarrow>
                         (Inr (last addrs),
                          [GetAddrInfo server] @
                          dbg (truthy DEBUG)
                            (Print ''get_current_ip: dns server ip: %s'' [Str (last addrs)])))))"

fun all_is_ip :: "string list \<Rightarrow> string \<Rightarrow> exn + bool" where
  "all_is_ip [] dnstype = Inr True"
| "all_is_ip (ip # ips) dnstype =
     (case is_ip ip dnstype of
        Inl exc \<Rightarrow> Inl exc
      | Inr ok \<Rightarrow> if ok then all_is_ip ips dnstype else Inr False)"

definition get_current_ips_try ::
  "string option \<Rightarrow> world \<Rightarrow> string \<Rightarrow> string \<Rightarrow> string
     \<Rightarrow> (exn + string list) \<times> event list" where
  "get_current_ips_try DEBUG w hostname server dnstype =
     (case resolve_server DEBUG w server of
        (r, ev1) \<Rightarrow>
          (case r of
             Inl exc \<Rightarrow> (Inl exc, ev1)
           | Inr srv \<Rightarrow>
               (let (answer, ev2) =
                      (if dnstype = ''A''
                       then (dns_lookup w srv hostname, [DnsLookup srv hostname])
                       else (dns_lookup6 w srv hostname, [DnsLookup6 srv hostname]))
                in case answer of
                     Inl exc \<Rightarrow> (Inl exc, ev1 @ ev2)
                   | Inr ips \<Rightarrow>
                       (let ev3 = dbg (truthy DEBUG)
                                    (Print ''get_current_ip: current record: %s'' [StrList ips])
                        in case all_is_ip ips dnstype of
                             Inl exc \<Rightarrow> (Inl exc, ev1 @ ev2 @ ev3)
                           | Inr ok \<Rightarrow> if ok then (Inr ips, ev1 @ ev2 @ ev3)
                                       else (Inl AssertionError, ev1 @ ev2 @ ev3)))))"

definition get_current_ips ::
  "string option \<Rightarrow> world \<Rightarrow> string \<Rightarrow> string \<Rightarrow> string \<Rightarrow> string list \<times> event list" where
  "get_current_ips DEBUG w hostname server dnstype =
     (case get_current_ips_try DEBUG w hostname server dnstype of
        (r, ev) \<Rightarrow>
          (let ips = (case r of Inl exc \<Rightarrow> [] | Inr ips \<Rightarrow> ips)
           in (ips,
               ev @ dbg (truthy DEBUG)
                      (Print ''get_current_ip: %s is %s'' [Str hostname, StrList ips]))))"

text \<open>
  \<open>main\<close>. \<open>unchanged\<close> is the condition of the \<open>if\<close> that guards
  \<open>sys.exit()\<close>; \<open>zone_of\<close> is \<open>'.'.join(hostname.split('.')[1:])\<close>;
  \<open>send_update\<close> is the rest of \<open>main\<close> from there.
\<close>

definition unchanged :: "string \<Rightarrow> string list \<Rightarrow> bool \<Rightarrow> bool \<Rightarrow> bool" where
  "unchanged ip currentips force deleteonly =
     (set [ip] = set currentips \<and> \<not> force \<and> \<not> deleteonly)"

definition zone_of :: "string \<Rightarrow> string" where
  "zone_of hostname = join ''.'' (tl (split_on CHR ''.'' hostname))"

definition send_update ::
  "string option \<Rightarrow> world \<Rightarrow> args \<Rightarrow> string \<Rightarrow> string \<Rightarrow> string \<Rightarrow> string
     \<Rightarrow> exit_status \<times> event list" where
  "send_update DEBUG w a privkey server hostname ip =
     (let domain = zone_of hostname;
          (conffile, ev3) = create_nsupdate_contents DEBUG w server domain hostname ip
                              (arg_ttl a) (arg_dnstype a) (arg_deleteonly a);
          (r, ev4) = run_nsupdate DEBUG w (arg_exe a) privkey conffile
      in case r of
           Inl exc \<Rightarrow> (Uncaught exc, ev3 @ ev4)
         | Inr (stdout, stderr, rc) \<Rightarrow>
             if rc \<noteq> 0
             then (ExitMsg ''ERROR: nsupdate failed - %s / %s'' [Bytes stdout, Bytes stderr],
                   ev3 @ ev4 @ [Remove conffile])
             else (ExitOK, ev3 @ ev4 @ [Remove conffile]))"

definition main :: "string option \<Rightarrow> world \<Rightarrow> args \<Rightarrow> exit_status \<times> event list" where
  "main DEBUG w parsed =
     (let (a, ev0) = getargs DEBUG parsed in
      case (arg_privkey a, arg_server a, arg_hostname a) of
        (Some privkey, Some server, Some hostname) \<Rightarrow>
          if \<not> isfile w privkey then (ExitMsg ''ERROR: key files not found'' [], ev0)
          else
            (let (ipo, ev1) = get_remote_ip DEBUG w (arg_remoteiplookup a) (arg_dnstype a) in
             case ipo of
               None \<Rightarrow> (ExitMsg ''Invalid IP returned'' [], ev0 @ ev1)
             | Some ip \<Rightarrow>
                 (let (currentips, ev2) = get_current_ips DEBUG w hostname server (arg_dnstype a)
                  in if unchanged ip currentips (arg_force a) (arg_deleteonly a)
                     then (ExitOK,
                           ev0 @ ev1 @ ev2 @
                           dbg (truthy DEBUG)
                             (Print ''%s is %s - unchanged. No update'' [Str hostname, Str ip]))
                     else (let (st, ev5) = send_update DEBUG w a privkey server hostname ip
                           in (st, ev0 @ ev1 @ ev2 @ ev5))))
      | _ \<Rightarrow> (ExitMsg ''ERROR: not all args specified'' [], ev0))"

section \<open>Observations on a run\<close>

text \<open>The temporary files on disk after a sequence of events, starting from \<open>fs\<close>.\<close>

fun tmp_files :: "event list \<Rightarrow> string list \<Rightarrow> string list" where
  "tmp_files [] fs = fs"
| "tmp_files (TempWrite f c # es) fs = tmp_files es (f # fs)"
| "tmp_files (Remove f # es) fs = tmp_files es (removeAll f fs)"
| "tmp_files (e # es) fs = tmp_files es fs"

fun is_network :: "event \<Rightarrow> bool" where
  "is_network (HttpGet u) = True"
| "is_network (GetAddrInfo s) = True"
| "is_network (DnsLookup s h) = True"
| "is_network (DnsLookup6 s h) = True"
| "is_network e = False"

fun is_update :: "event \<Rightarrow> bool" where
  "is_update (TempWrite f c) = True"
| "is_update (Popen cmd) = True"
| "is_update e = False"

fun is_print :: "event \<Rightarrow> bool" where
  "is_print (Print fmt vals) = True"
| "is_print e = False"

text \<open>A run without its diagnostic printing: exit status and the other events.\<close>

definition silent :: "event list \<Rightarrow> event list" where
  "silent es = filter (\<lambda>e. \<not> is_print e) es"

definition behaviour :: "exit_status \<times> event list \<Rightarrow> exit_status \<times> event list" where
  "behaviour r = (fst r, silent (snd r))"

text \<open>Events that are neither a file operation nor a subprocess launch.\<close>

definition quiet :: "event \<Rightarrow> bool" where
  "quiet e = (is_print e \<or> is_network e)"

text \<open>
  The two guards at the head of \<open>main\<close>, passed: no required argument is \<open>None\<close>
  and the key path is a file.
\<close>

definition config_valid :: "world \<Rightarrow> args \<Rightarrow> bool" where
  "config_valid w a =
     (case arg_privkey a of
        None \<Rightarrow> False
      | Some privkey \<Rightarrow> arg_server a \<noteq> None \<and> arg_hostname a \<noteq> None \<and> isfile w privkey)"

text \<open>The command line \<open>cmd\<close> that \<open>run_nsupdate\<close> builds in a run of \<open>main\<close>.\<close>

definition nsupdate_cmd :: "world \<Rightarrow> args \<Rightarrow> string \<Rightarrow> string list" where
  "nsupdate_cmd w a privkey = [arg_exe a, ''-k'', privkey, ''-v'', tmpname w]"

section \<open>Shapes named by the specification\<close>

text \<open>
  A group of one to three decimal digits, and four strings joined by dots: the
  dotted-quad shape.
\<close>

definition digit_group :: "string \<Rightarrow> bool" where
  "digit_group g = (1 \<le> length g \<and> length g \<le> 3 \<and> list_all py_isdigit g)"

definition dotted_quad :: "string \<Rightarrow> string \<Rightarrow> string \<Rightarrow> string \<Rightarrow> string" where
  "dotted_quad g1 g2 g3 g4 = g1 @ ''.'' @ g2 @ ''.'' @ g3 @ ''.'' @ g4"

section \<open>A concrete run\<close>

text \<open>
  Arguments and an environment for evaluating the program: the key file exists, the
  server is given as an address literal, and the HTTP response, the DNS answer and the
  outcome of the subprocess are parameters.
\<close>

definition ex_args :: "bool \<Rightarrow> bool \<Rightarrow> args" where
  "ex_args force deleteonly =
     \<lparr>arg_exe = ''/usr/bin/nsupdate'', arg_privkey = Some ''/etc/ddns.key'',
      arg_server = Some ''192.0.2.53'', arg_force = force, arg_ttl = 300,
      arg_hostname = Some ''host.example.com'', arg_dnstype = ''A'',
      arg_deleteonly = deleteonly, arg_remoteiplookup = None\<rparr>"

definition ex_world ::
  "(exn + string) \<Rightarrow> (exn + string list) \<Rightarrow> (exn + string \<times> string \<times> int) \<Rightarrow> world" where
  "ex_world body answer result =
     \<lparr>isfile = (\<lambda>p. p = ''/etc/ddns.key''),
      http_get = (\<lambda>url. body),
      getaddrinfo = (\<lambda>name. Inl GaiError),
      dns_lookup = (\<lambda>srv name. answer),
      dns_lookup6 = (\<lambda>srv name. Inl DNSError),
      tmpname = ''/tmp/tmpk3x9'',
      subprocess = (\<lambda>cmd. result)\<rparr>"

definition ex_body :: string where
  "ex_body = ''198.51.100.7'' @ [NL]"


section \<open>Properties of the string routines\<close>

lemma split_on_nonempty: "split_on sep s \<noteq> []"
  by (induction s) (auto split: list.splits)

lemma join_cons_head: "join sep ((c # x) # xs) = c # join sep (x # xs)"
  by (cases xs) simp_all

text \<open>
  Joining what \<open>split\<close> returns gives the string back, so stripping the first
  label of a host name leaves exactly what follows its first dot.
\<close>

lemma join_split_on: "join [sep] (split_on sep s) = s"
proof (induction s)
  case Nil
  then show ?case by simp
next
  case (Cons c cs)
  obtain x xs where sp: "split_on sep cs = x # xs"
    using split_on_nonempty[of sep cs] by (cases "split_on sep cs") auto
  with Cons show ?case by (simp add: join_cons_head)
qed

lemma split_on_first_label:
  "sep \<notin> set label \<Longrightarrow> split_on sep (label @ sep # rest) = label # split_on sep rest"
proof (induction label)
  case Nil
  then show ?case by simp
next
  case (Cons c cs)
  then show ?case by auto
qed

lemma zone_of_strips_label:
  "CHR ''.'' \<notin> set label \<Longrightarrow> zone_of (label @ ''.'' @ rest) = rest"
  using join_split_on[of "CHR ''.''" rest]
  by (simp add: zone_of_def split_on_first_label)

lemma str_int_300: "str_int 300 = ''300''"
  by (simp add: str_int_def str_nat.simps digit_char_def)

section \<open>What the validators accept\<close>

text \<open>
  \<open>rx_digits n\<close> leaves \<open>r\<close> exactly when the input is one to \<open>n\<close> digits
  followed by \<open>r\<close>.
\<close>

lemma rx_digits_complete:
  "list_all py_isdigit g \<Longrightarrow> 1 \<le> length g \<Longrightarrow> length g \<le> n \<Longrightarrow> r \<in> set (rx_digits n (g @ r))"
proof (induction n arbitrary: g)
  case 0
  then show ?case by simp
next
  case (Suc n)
  then obtain c cs where g: "g = c # cs" by (cases g) auto
  show ?case
  proof (cases cs)
    case Nil
    with g Suc.prems show ?thesis by simp
  next
    case (Cons d ds)
    with g Suc.prems have "r \<in> set (rx_digits n (cs @ r))"
      by (intro Suc.IH) auto
    with g Suc.prems show ?thesis by simp
  qed
qed

lemma rx_digits_sound:
  "r \<in> set (rx_digits n s) \<Longrightarrow>
   \<exists>g. s = g @ r \<and> 1 \<le> length g \<and> length g \<le> n \<and> list_all py_isdigit g"
proof (induction n arbitrary: s)
  case 0
  then show ?case by simp
next
  case (Suc n)
  then obtain c cs where s: "s = c # cs" by (cases s) auto
  with Suc.prems have c: "py_isdigit c" and r: "r \<in> set (rx_digits n cs) \<or> r = cs"
    by (auto split: if_splits)
  from r show ?case
  proof
    assume "r \<in> set (rx_digits n cs)"
    from Suc.IH[OF this] obtain g where "cs = g @ r" "1 \<le> length g" "length g \<le> n" "list_all py_isdigit g"
      by blast
    with s c have "s = (c # g) @ r \<and> 1 \<le> length (c # g) \<and> length (c # g) \<le> Suc n \<and> list_all py_isdigit (c # g)"
      by simp
    then show ?thesis by blast
  next
    assume "r = cs"
    with s c have "s = [c] @ r \<and> 1 \<le> length [c] \<and> length [c] \<le> Suc n \<and> list_all py_isdigit [c]"
      by simp
    then show ?thesis by blast
  qed
qed

lemma rx_digits_iff:
  "r \<in> set (rx_digits 3 s) \<longleftrightarrow> (\<exists>g. digit_group g \<and> s = g @ r)"
  unfolding digit_group_def
  using rx_digits_complete[of _ 3 r] rx_digits_sound[of r 3 s] by blast

lemma rx_dot_iff: "r \<in> set (rx_dot s) \<longleftrightarrow> s = ''.'' @ r"
  by (cases s) auto

lemma rx_group_dot_iff:
  "r \<in> set (rx_group_dot s) \<longleftrightarrow> (\<exists>g. digit_group g \<and> s = g @ ''.'' @ r)"
  unfolding rx_group_dot_def by (auto simp: rx_digits_iff rx_dot_iff)

text \<open>
  The strings \<open>is_ipv4\<close> accepts: four digit groups joined by dots, and the same
  followed by one newline.
\<close>

lemma is_ipv4_iff:
  "is_ipv4 ip \<longleftrightarrow>
     (\<exists>g1 g2 g3 g4. digit_group g1 \<and> digit_group g2 \<and> digit_group g3 \<and> digit_group g4 \<and>
        (ip = dotted_quad g1 g2 g3 g4 \<or> ip = dotted_quad g1 g2 g3 g4 @ [NL]))"
  (is "?L \<longleftrightarrow> ?R")
proof
  assume ?L
  then obtain r1 r2 r3 r4 where
    "r1 \<in> set (rx_group_dot ip)" "r2 \<in> set (rx_group_dot r1)" "r3 \<in> set (rx_group_dot r2)"
    "r4 \<in> set (rx_digits 3 r3)" "rx_end r4"
    unfolding is_ipv4_def list_ex_iff by auto
  then obtain g1 g2 g3 g4 where
    "digit_group g1" "ip = g1 @ ''.'' @ r1" "digit_group g2" "r1 = g2 @ ''.'' @ r2"
    "digit_group g3" "r2 = g3 @ ''.'' @ r3" "digit_group g4" "r3 = g4 @ r4" "r4 = [] \<or> r4 = [NL]"
    unfolding rx_group_dot_iff rx_digits_iff rx_end_def by blast
  then show ?R unfolding dotted_quad_def by auto
next
  assume ?R
  then obtain g1 g2 g3 g4 r4 where g: "digit_group g1" "digit_group g2" "digit_group g3" "digit_group g4"
    and ip: "ip = g1 @ ''.'' @ g2 @ ''.'' @ g3 @ ''.'' @ g4 @ r4" and r4: "rx_end r4"
    unfolding dotted_quad_def rx_end_def by auto
  have 1: "g2 @ ''.'' @ g3 @ ''.'' @ g4 @ r4 \<in> set (rx_group_dot ip)"
    unfolding rx_group_dot_iff ip using g(1) by blast
  have 2: "g3 @ ''.'' @ g4 @ r4 \<in> set (rx_group_dot (g2 @ ''.'' @ g3 @ ''.'' @ g4 @ r4))"
    unfolding rx_group_dot_iff using g(2) by blast
  have 3: "g4 @ r4 \<in> set (rx_group_dot (g3 @ ''.'' @ g4 @ r4))"
    unfolding rx_group_dot_iff using g(3) by blast
  have 4: "r4 \<in> set (rx_digits 3 (g4 @ r4))"
    unfolding rx_digits_iff using g(4) by blast
  show ?L unfolding is_ipv4_def list_ex_iff using 1 2 3 4 r4 by auto
qed

lemma is_ipv4_dotted_quad:
  assumes "digit_group g1" "digit_group g2" "digit_group g3" "digit_group g4"
  shows "is_ipv4 (dotted_quad g1 g2 g3 g4)"
  unfolding is_ipv4_iff using assms by blast

lemma is_ipv4_examples:
  "is_ipv4 ''1.2.3.4''" "\<not> is_ipv4 ''::1''" "is_ipv4 (''1.2.3.4'' @ [NL])"
  by (simp_all add: is_ipv4_def rx_group_dot_def rx_end_def py_isdigit_def eval_nat_numeral)

lemma inet_pton6_examples:
  "inet_pton6 ''::1''" "\<not> inet_pton6 ''1.2.3.4''"
  by (simp_all add: inet_pton6_def pton6_finish_def hex_digit_value_def inet_pton4_def
        py_isdigit_def)

lemma address_family_examples:
  "is_ip ''1.2.3.4'' ''A'' = Inr True"
  "is_ip ''1.2.3.4'' ''AAAA'' = Inr False"
  "is_ip ''::1'' ''AAAA'' = Inr True"
  "is_ip ''::1'' ''A'' = Inr False"
  using is_ipv4_examples inet_pton6_examples
  by (simp_all add: is_ip_def is_ipv6_def)

lemma is_ip_AAAA_iff: "is_ip ip ''AAAA'' = Inr True \<longleftrightarrow> CHR 0x00 \<notin> set ip \<and> inet_pton6 ip"
  by (simp add: is_ip_def is_ipv6_def)

lemma newline_not_dotted_quad:
  assumes "digit_group g4"
  shows "''1.2.3.4'' @ [NL] \<noteq> dotted_quad g1 g2 g3 g4"
proof
  assume eq: "''1.2.3.4'' @ [NL] = dotted_quad g1 g2 g3 g4"
  from assms have ne: "g4 \<noteq> []" and all: "\<forall>c\<in>set g4. py_isdigit c"
    by (auto simp: digit_group_def list_all_iff)
  from ne all have d: "py_isdigit (last g4)"
    using last_in_set by blast
  from ne have "last (dotted_quad g1 g2 g3 g4) = last g4"
    by (simp add: dotted_quad_def)
  with eq have "last g4 = NL" by (metis last_snoc)
  with d show False by (simp add: py_isdigit_def NL_def)
qed

section \<open>Events of the parts of a run\<close>

lemma getargs_keeps [simp]:
  "arg_exe (fst (getargs D a)) = arg_exe a"
  "arg_privkey (fst (getargs D a)) = arg_privkey a"
  "arg_server (fst (getargs D a)) = arg_server a"
  "arg_force (fst (getargs D a)) = arg_force a"
  "arg_ttl (fst (getargs D a)) = arg_ttl a"
  "arg_hostname (fst (getargs D a)) = arg_hostname a"
  "arg_dnstype (fst (getargs D a)) = arg_dnstype a"
  "arg_deleteonly (fst (getargs D a)) = arg_deleteonly a"
  by (simp_all add: getargs_def Let_def)

lemma getargs_debug_free: "fst (getargs D a) = fst (getargs D' a)"
  by (simp add: getargs_def Let_def)

lemma quiet_dbg [simp]: "list_all quiet (dbg b (Print fmt vals))"
  by (simp add: dbg_def quiet_def)

lemma quiet_getargs: "list_all quiet (snd (getargs D a))"
  by (simp add: getargs_def Let_def)

lemma quiet_get_remote_ip: "list_all quiet (snd (get_remote_ip D w url t))"
  by (simp add: get_remote_ip_def get_remote_ip_try_def quiet_def Let_def case_prod_beta
           split: option.splits sum.splits)

lemma quiet_resolve_server: "list_all quiet (snd (resolve_server D w srv))"
  by (simp add: resolve_server_def quiet_def split: sum.splits list.splits)

lemma quiet_get_current_ips: "list_all quiet (snd (get_current_ips D w hn srv t))"
  using quiet_resolve_server[of D w srv]
  by (auto simp add: get_current_ips_def get_current_ips_try_def quiet_def Let_def case_prod_beta
           split: sum.splits)

lemma quiet_not_update: "list_all quiet es \<Longrightarrow> \<not> list_ex is_update es"
proof (induction es)
  case Nil
  then show ?case by simp
next
  case (Cons e es)
  then show ?case by (cases e) (simp_all add: quiet_def)
qed

lemma list_ex_append_quiet:
  "list_all quiet pre \<Longrightarrow> list_ex is_update (pre @ es) = list_ex is_update es"
  using quiet_not_update[of pre] by (auto simp add: list_ex_iff)

lemma quiet_not_member:
  "list_all quiet es \<Longrightarrow> Popen cmd \<notin> set es \<and> TempWrite f c \<notin> set es \<and> Remove f \<notin> set es"
  by (auto simp: list_all_iff quiet_def)

lemma tmp_files_append: "tmp_files (xs @ ys) fs = tmp_files ys (tmp_files xs fs)"
  by (induction xs fs rule: tmp_files.induct) simp_all

lemma tmp_files_quiet: "list_all quiet es \<Longrightarrow> tmp_files es fs = fs"
proof (induction es)
  case Nil
  then show ?case by simp
next
  case (Cons e es)
  then show ?case by (cases e) (simp_all add: quiet_def)
qed

lemma tmp_files_dbg [simp]: "tmp_files (dbg b (Print fmt vals)) fs = fs"
  by (simp add: dbg_def)

section \<open>The paths through main\<close>

text \<open>
  A run that fails one of the two guards ends there; its only event is the diagnostic
  line of \<open>getargs\<close>.
\<close>

lemma main_invalid:
  assumes "\<not> config_valid w a"
  shows "snd (main D w a) = snd (getargs D a)"
    and "fst (main D w a) = ExitMsg ''ERROR: not all args specified'' []
         \<or> fst (main D w a) = ExitMsg ''ERROR: key files not found'' []"
  using assms
  by (auto simp add: main_def config_valid_def Let_def case_prod_beta split: option.splits)

lemma main_invalid_status:
  assumes "\<not> config_valid w a"
  shows "fst (main D w a) =
     (if arg_privkey a \<noteq> None \<and> arg_server a \<noteq> None \<and> arg_hostname a \<noteq> None
      then ExitMsg ''ERROR: key files not found'' []
      else ExitMsg ''ERROR: not all args specified'' [])"
  using assms
  by (auto simp add: main_def config_valid_def Let_def case_prod_beta split: option.splits)

lemma config_validE:
  assumes "config_valid w a"
  obtains pk srv hn where "arg_privkey a = Some pk" "arg_server a = Some srv"
    "arg_hostname a = Some hn" "isfile w pk"
  using assms by (auto simp: config_valid_def split: option.splits)

text \<open>
  A run that passes the guards, with \<open>main\<close> unfolded up to the calls it makes.
\<close>

lemma main_valid:
  assumes "arg_privkey a = Some pk" "arg_server a = Some srv" "arg_hostname a = Some hn"
    and "isfile w pk"
  shows "main D w a =
     (let a' = fst (getargs D a); ev0 = snd (getargs D a);
          r1 = get_remote_ip D w (arg_remoteiplookup a') (arg_dnstype a)
      in case fst r1 of
           None \<Rightarrow> (ExitMsg ''Invalid IP returned'' [], ev0 @ snd r1)
         | Some ip \<Rightarrow>
             (let r2 = get_current_ips D w hn srv (arg_dnstype a) in
              if unchanged ip (fst r2) (arg_force a) (arg_deleteonly a)
              then (ExitOK, ev0 @ snd r1 @ snd r2 @
                      dbg (truthy D) (Print ''%s is %s - unchanged. No update'' [Str hn, Str ip]))
              else (fst (send_update D w a' pk srv hn ip),
                    ev0 @ snd r1 @ snd r2 @ snd (send_update D w a' pk srv hn ip))))"
  using assms
  by (simp add: main_def Let_def case_prod_beta split: option.splits)

text \<open>
  \<open>send_update\<close> when the subprocess cannot be launched and when it completes.
\<close>

lemma send_update_failed_launch:
  assumes "subprocess w (nsupdate_cmd w a pk) = Inl e"
  shows "send_update D w a pk srv hn ip =
     (Uncaught e,
      dbg (truthy D \<and> arg_deleteonly a) (Print ''delete only'' []) @
      [TempWrite (tmpname w)
         (nsupdate_content srv (zone_of hn) hn ip (arg_ttl a) (arg_dnstype a) (arg_deleteonly a))] @
      dbg (truthy D) (Print (''---'' @ [NL] @ ''%s'' @ [NL] @ ''---'' @ [NL])
         [Str (nsupdate_content srv (zone_of hn) hn ip (arg_ttl a) (arg_dnstype a) (arg_deleteonly a))]) @
      [Popen (nsupdate_cmd w a pk)])"
  using assms
  by (simp add: send_update_def create_nsupdate_contents_def run_nsupdate_def nsupdate_cmd_def Let_def case_prod_beta)

lemma send_update_completed:
  assumes "subprocess w (nsupdate_cmd w a pk) = Inr (out, err, rc)"
  shows "send_update D w a pk srv hn ip =
     (if rc \<noteq> 0 then ExitMsg ''ERROR: nsupdate failed - %s / %s'' [Bytes out, Bytes err] else ExitOK,
      dbg (truthy D \<and> arg_deleteonly a) (Print ''delete only'' []) @
      [TempWrite (tmpname w)
         (nsupdate_content srv (zone_of hn) hn ip (arg_ttl a) (arg_dnstype a) (arg_deleteonly a))] @
      dbg (truthy D) (Print (''---'' @ [NL] @ ''%s'' @ [NL] @ ''---'' @ [NL])
         [Str (nsupdate_content srv (zone_of hn) hn ip (arg_ttl a) (arg_dnstype a) (arg_deleteonly a))]) @
      [Popen (nsupdate_cmd w a pk)] @
      dbg (D \<noteq> None) (Print (''%s'' @ [NL, NL] @ ''%s'' @ [NL]) [Bytes out, Bytes err]) @
      [Remove (tmpname w)])"
  using assms
  by (simp add: send_update_def create_nsupdate_contents_def run_nsupdate_def nsupdate_cmd_def Let_def case_prod_beta)

lemma send_update_is_update: "list_ex is_update (snd (send_update D w a pk srv hn ip))"
  by (simp add: send_update_def create_nsupdate_contents_def run_nsupdate_def Let_def
        case_prod_beta list_ex_iff split: sum.splits)

lemma send_update_payload:
  "TempWrite (tmpname w)
     (nsupdate_content srv (zone_of hn) hn ip (arg_ttl a) (arg_dnstype a) (arg_deleteonly a))
   \<in> set (snd (send_update D w a pk srv hn ip))"
  by (cases "subprocess w (nsupdate_cmd w a pk)")
     (auto simp add: send_update_failed_launch send_update_completed)

lemma send_update_launches:
  "Popen (nsupdate_cmd w a pk) \<in> set (snd (send_update D w a pk srv hn ip))"
  by (cases "subprocess w (nsupdate_cmd w a pk)")
     (auto simp add: send_update_failed_launch send_update_completed)

lemma nsupdate_cmd_getargs [simp]: "nsupdate_cmd w (fst (getargs D a)) pk = nsupdate_cmd w a pk"
  by (simp add: nsupdate_cmd_def)

lemma send_update_popen:
  "Popen cmd \<in> set (snd (send_update D w a pk srv hn ip)) \<Longrightarrow> cmd = nsupdate_cmd w a pk"
  by (cases "subprocess w (nsupdate_cmd w a pk)")
     (auto simp add: send_update_failed_launch send_update_completed dbg_def split: if_splits)

lemma send_update_tmp_files:
  "tmp_files (snd (send_update D w a pk srv hn ip)) [] =
     (case subprocess w (nsupdate_cmd w a pk) of Inl e \<Rightarrow> [tmpname w] | Inr res \<Rightarrow> [])"
  by (cases "subprocess w (nsupdate_cmd w a pk)")
     (auto simp add: send_update_failed_launch send_update_completed tmp_files_append)

lemma unchanged_iff: "unchanged ip cur f d \<longleftrightarrow> \<not> d \<and> \<not> f \<and> {ip} = set cur"
  by (auto simp: unchanged_def)

lemma main_update_iff:
  assumes "arg_privkey a = Some pk" "arg_server a = Some srv" "arg_hostname a = Some hn"
    and "isfile w pk"
    and "fst (get_remote_ip D w (arg_remoteiplookup (fst (getargs D a))) (arg_dnstype a)) = Some ip"
  shows "list_ex is_update (snd (main D w a)) \<longleftrightarrow>
           \<not> unchanged ip (fst (get_current_ips D w hn srv (arg_dnstype a))) (arg_force a) (arg_deleteonly a)"
    and "unchanged ip (fst (get_current_ips D w hn srv (arg_dnstype a))) (arg_force a) (arg_deleteonly a)
         \<Longrightarrow> fst (main D w a) = ExitOK"
    and "\<not> unchanged ip (fst (get_current_ips D w hn srv (arg_dnstype a))) (arg_force a) (arg_deleteonly a)
         \<Longrightarrow> fst (main D w a) = fst (send_update D w (fst (getargs D a)) pk srv hn ip)"
proof -
  let ?pre = "snd (getargs D a) @ snd (get_remote_ip D w (arg_remoteiplookup (fst (getargs D a))) (arg_dnstype a))
               @ snd (get_current_ips D w hn srv (arg_dnstype a))"
  have q: "list_all quiet ?pre"
    by (simp add: quiet_getargs quiet_get_remote_ip quiet_get_current_ips)
  have q': "list_all quiet (?pre @ dbg (truthy D) (Print ''%s is %s - unchanged. No update'' [Str hn, Str ip]))"
    using q by simp
  show "list_ex is_update (snd (main D w a)) \<longleftrightarrow>
           \<not> unchanged ip (fst (get_current_ips D w hn srv (arg_dnstype a))) (arg_force a) (arg_deleteonly a)"
  proof (cases "unchanged ip (fst (get_current_ips D w hn srv (arg_dnstype a))) (arg_force a) (arg_deleteonly a)")
    case True
    then have "snd (main D w a) = ?pre @ dbg (truthy D) (Print ''%s is %s - unchanged. No update'' [Str hn, Str ip])"
      using assms by (simp add: main_valid Let_def)
    with True quiet_not_update[OF q'] show ?thesis by simp
  next
    case False
    then have "snd (main D w a) = ?pre @ snd (send_update D w (fst (getargs D a)) pk srv hn ip)"
      using assms by (simp add: main_valid Let_def)
    with False list_ex_append_quiet[OF q] send_update_is_update show ?thesis by simp
  qed
  show "unchanged ip (fst (get_current_ips D w hn srv (arg_dnstype a))) (arg_force a) (arg_deleteonly a)
         \<Longrightarrow> fst (main D w a) = ExitOK"
    using assms by (simp add: main_valid Let_def)
  show "\<not> unchanged ip (fst (get_current_ips D w hn srv (arg_dnstype a))) (arg_force a) (arg_deleteonly a)
         \<Longrightarrow> fst (main D w a) = fst (send_update D w (fst (getargs D a)) pk srv hn ip)"
    using assms by (simp add: main_valid Let_def)
qed

text \<open>
  A run that decides to update writes the payload to the temporary file and launches
  the subprocess on it.
\<close>

lemma main_update_events:
  assumes "arg_privkey a = Some pk" "arg_server a = Some srv" "arg_hostname a = Some hn"
    and "isfile w pk"
    and "fst (get_remote_ip D w (arg_remoteiplookup (fst (getargs D a))) (arg_dnstype a)) = Some ip"
    and "\<not> unchanged ip (fst (get_current_ips D w hn srv (arg_dnstype a))) (arg_force a) (arg_deleteonly a)"
  shows "TempWrite (tmpname w)
           (nsupdate_content srv (zone_of hn) hn ip (arg_ttl a) (arg_dnstype a) (arg_deleteonly a))
         \<in> set (snd (main D w a))"
    and "Popen (nsupdate_cmd w a pk) \<in> set (snd (main D w a))"
proof -
  let ?a = "fst (getargs D a)"
  have m: "snd (main D w a) =
      snd (getargs D a) @ snd (get_remote_ip D w (arg_remoteiplookup ?a) (arg_dnstype a))
      @ snd (get_current_ips D w hn srv (arg_dnstype a))
      @ snd (send_update D w ?a pk srv hn ip)"
    using assms by (simp add: main_valid Let_def)
  from send_update_payload[of w srv hn ip ?a D pk]
  show "TempWrite (tmpname w)
           (nsupdate_content srv (zone_of hn) hn ip (arg_ttl a) (arg_dnstype a) (arg_deleteonly a))
         \<in> set (snd (main D w a))"
    unfolding m by simp
  from send_update_launches[of w ?a pk D srv hn ip]
  show "Popen (nsupdate_cmd w a pk) \<in> set (snd (main D w a))"
    unfolding m by simp
qed

lemma main_cases:
  obtains (no_update) "list_all quiet (snd (main D w a))"
      "fst (main D w a) = ExitOK \<or> (\<exists>msg. fst (main D w a) = ExitMsg msg [])"
  | (update) pk srv hn ip pre where "list_all quiet pre"
      "arg_privkey a = Some pk" "arg_server a = Some srv" "arg_hostname a = Some hn" "isfile w pk"
      "fst (get_remote_ip D w (arg_remoteiplookup (fst (getargs D a))) (arg_dnstype a)) = Some ip"
      "\<not> unchanged ip (fst (get_current_ips D w hn srv (arg_dnstype a))) (arg_force a) (arg_deleteonly a)"
      "main D w a = (fst (send_update D w (fst (getargs D a)) pk srv hn ip),
                     pre @ snd (send_update D w (fst (getargs D a)) pk srv hn ip))"
proof (cases "config_valid w a")
  case False
  from main_invalid(1)[OF False, of D] main_invalid_status[OF False, of D] quiet_getargs[of D a]
  show ?thesis by (intro no_update) auto
next
  case True
  then obtain pk srv hn where v: "arg_privkey a = Some pk" "arg_server a = Some srv"
    "arg_hostname a = Some hn" "isfile w pk"
    by (rule config_validE)
  let ?a = "fst (getargs D a)"
  let ?r1 = "get_remote_ip D w (arg_remoteiplookup ?a) (arg_dnstype a)"
  let ?r2 = "get_current_ips D w hn srv (arg_dnstype a)"
  show ?thesis
  proof (cases "fst ?r1")
    case None
    then have "main D w a = (ExitMsg ''Invalid IP returned'' [], snd (getargs D a) @ snd ?r1)"
      using v by (simp add: main_valid Let_def)
    then show ?thesis
      by (intro no_update) (simp_all add: quiet_getargs quiet_get_remote_ip)
  next
    case (Some ip)
    show ?thesis
    proof (cases "unchanged ip (fst ?r2) (arg_force a) (arg_deleteonly a)")
      case True
      then have "main D w a = (ExitOK, snd (getargs D a) @ snd ?r1 @ snd ?r2 @
          dbg (truthy D) (Print ''%s is %s - unchanged. No update'' [Str hn, Str ip]))"
        using v Some by (simp add: main_valid Let_def)
      then show ?thesis
        by (intro no_update)
           (simp_all add: quiet_getargs quiet_get_remote_ip quiet_get_current_ips)
    next
      case False
      then have "main D w a = (fst (send_update D w ?a pk srv hn ip),
          (snd (getargs D a) @ snd ?r1 @ snd ?r2) @ snd (send_update D w ?a pk srv hn ip))"
        using v Some by (simp add: main_valid Let_def)
      moreover have "list_all quiet (snd (getargs D a) @ snd ?r1 @ snd ?r2)"
        by (simp add: quiet_getargs quiet_get_remote_ip quiet_get_current_ips)
      ultimately show ?thesis
        using v Some False by (intro update[of _ pk srv hn ip]) auto
    qed
  qed
qed

lemma main_popen:
  assumes "Popen cmd \<in> set (snd (main D w a))"
  obtains pk srv hn ip pre where "list_all quiet pre" "arg_privkey a = Some pk"
    "cmd = nsupdate_cmd w a pk"
    "main D w a = (fst (send_update D w (fst (getargs D a)) pk srv hn ip),
                   pre @ snd (send_update D w (fst (getargs D a)) pk srv hn ip))"
proof (cases rule: main_cases[of D w a])
  case no_update
  with assms quiet_not_member[of "snd (main D w a)" cmd] show ?thesis by simp
next
  case (update pk srv hn ip pre)
  with assms quiet_not_member[of pre cmd]
  have "Popen cmd \<in> set (snd (send_update D w (fst (getargs D a)) pk srv hn ip))" by auto
  then have "cmd = nsupdate_cmd w a pk" using send_update_popen by fastforce
  with update show ?thesis by (intro that[of pre pk srv hn ip]) auto
qed

lemma get_remote_ip_result:
  "fst (get_remote_ip D w (Some url) t) =
     (case http_get w url of
        Inl e \<Rightarrow> None
      | Inr body \<Rightarrow> if is_ip (strip body) t = Inr True then Some (strip body) else None)"
  by (auto simp add: get_remote_ip_def get_remote_ip_try_def Let_def split: sum.splits)

lemma get_remote_ip_no_url: "fst (get_remote_ip D w None t) = None"
  by (simp add: get_remote_ip_def get_remote_ip_try_def)

lemma main_no_remote_ip:
  assumes "fst (get_remote_ip D w (arg_remoteiplookup (fst (getargs D a))) (arg_dnstype a)) = None"
  shows "exit_code (fst (main D w a)) = 1 \<and> \<not> list_ex is_update (snd (main D w a))"
proof (cases "config_valid w a")
  case False
  from main_invalid(1)[OF False, of D] main_invalid_status[OF False, of D]
       quiet_not_update[OF quiet_getargs, of D a]
  show ?thesis by simp
next
  case True
  then obtain pk srv hn where v: "arg_privkey a = Some pk" "arg_server a = Some srv"
    "arg_hostname a = Some hn" "isfile w pk"
    by (rule config_validE)
  let ?r1 = "get_remote_ip D w (arg_remoteiplookup (fst (getargs D a))) (arg_dnstype a)"
  have m: "main D w a = (ExitMsg ''Invalid IP returned'' [], snd (getargs D a) @ snd ?r1)"
    using v assms by (simp add: main_valid Let_def)
  have "list_all quiet (snd (getargs D a) @ snd ?r1)"
    by (simp add: quiet_getargs quiet_get_remote_ip)
  from quiet_not_update[OF this] m show ?thesis by simp
qed

lemma all_is_ip_iff:
  "all_is_ip ips t = Inr True \<longleftrightarrow> list_all (\<lambda>ip. is_ip ip t = Inr True) ips"
  by (induction ips) (auto split: sum.splits)

lemma get_current_ips_result:
  "fst (get_current_ips D w hn srv t) =
     (case fst (resolve_server D w srv) of
        Inl e \<Rightarrow> []
      | Inr s \<Rightarrow>
          (case (if t = ''A'' then dns_lookup w s hn else dns_lookup6 w s hn) of
             Inl e \<Rightarrow> []
           | Inr ips \<Rightarrow> if list_all (\<lambda>ip. is_ip ip t = Inr True) ips then ips else []))"
  by (auto simp add: get_current_ips_def get_current_ips_try_def Let_def case_prod_beta
           all_is_ip_iff[symmetric] split: sum.splits)

lemma resolve_server_result:
  "fst (resolve_server D w srv) =
     (case is_ip srv ''ANY'' of
        Inl e \<Rightarrow> Inl e
      | Inr literal \<Rightarrow>
          if literal then Inr srv
          else (case getaddrinfo w srv of
                  Inl e \<Rightarrow> Inl e
                | Inr addrs \<Rightarrow> if addrs = [] then Inl IndexError else Inr (last addrs)))"
  by (auto simp add: resolve_server_def split: sum.splits list.splits)

lemma main_no_current_record:
  assumes "arg_privkey a = Some pk" "arg_server a = Some srv" "arg_hostname a = Some hn"
    and "isfile w pk"
    and "fst (get_remote_ip D w (arg_remoteiplookup (fst (getargs D a))) (arg_dnstype a)) = Some ip"
    and "fst (get_current_ips D w hn srv (arg_dnstype a)) = []"
  shows "list_ex is_update (snd (main D w a))
       \<and> fst (main D w a) = fst (send_update D w (fst (getargs D a)) pk srv hn ip)"
proof -
  have "\<not> unchanged ip (fst (get_current_ips D w hn srv (arg_dnstype a))) (arg_force a) (arg_deleteonly a)"
    using assms(6) by (simp add: unchanged_def)
  with main_update_iff(1,3)[OF assms(1-5)] show ?thesis by simp
qed

section \<open>Runs with and without IPDEBUG\<close>

text \<open>
  Each part of the program returns the same value whatever \<open>DEBUG\<close> is, and its
  events without the printing are the events of the run with \<open>IPDEBUG\<close> unset.
\<close>

lemma silent_append [simp]: "silent (xs @ ys) = silent xs @ silent ys"
  by (simp add: silent_def)

lemma silent_dbg [simp]: "silent (dbg b (Print fmt vals)) = []"
  by (simp add: silent_def dbg_def)

lemma dbg_off [simp]: "dbg False e = []" "truthy None = False"
  by (simp_all add: dbg_def truthy_def)

lemma silent_getargs: "silent (snd (getargs D a)) = []"
  by (simp add: getargs_def Let_def)

lemma get_remote_ip_debug:
  "fst (get_remote_ip D w url t) = fst (get_remote_ip None w url t)"
  "silent (snd (get_remote_ip D w url t)) = snd (get_remote_ip None w url t)"
  by (simp_all add: get_remote_ip_def get_remote_ip_try_def Let_def silent_def dbg_def truthy_def
        split: option.splits sum.splits)

lemma resolve_server_debug:
  "fst (resolve_server D w srv) = fst (resolve_server None w srv)"
  "silent (snd (resolve_server D w srv)) = snd (resolve_server None w srv)"
  by (simp_all add: resolve_server_def silent_def dbg_def truthy_def
        split: sum.splits list.splits)

lemma get_current_ips_debug:
  "fst (get_current_ips D w hn srv t) = fst (get_current_ips None w hn srv t)"
  "silent (snd (get_current_ips D w hn srv t)) = snd (get_current_ips None w hn srv t)"
proof -
  note rs = resolve_server_debug[of D w srv]
  show "fst (get_current_ips D w hn srv t) = fst (get_current_ips None w hn srv t)"
    unfolding get_current_ips_result by (simp add: rs(1))
  show "silent (snd (get_current_ips D w hn srv t)) = snd (get_current_ips None w hn srv t)"
    using rs
    by (cases "resolve_server D w srv"; cases "resolve_server None w srv")
       (auto simp add: get_current_ips_def get_current_ips_try_def Let_def case_prod_beta
          silent_def dbg_def truthy_def split: sum.splits)
qed

lemma send_update_debug:
  "fst (send_update D w a pk srv hn ip) = fst (send_update None w a pk srv hn ip)"
  "silent (snd (send_update D w a pk srv hn ip)) = snd (send_update None w a pk srv hn ip)"
  by (cases "subprocess w (nsupdate_cmd w a pk)";
      auto simp add: send_update_failed_launch send_update_completed silent_def dbg_def truthy_def)+

lemma main_debug: "behaviour (main D w a) = main None w a"
proof (cases "config_valid w a")
  case False
  have "snd (getargs None a) = []" by (simp add: getargs_def Let_def dbg_def truthy_def)
  then have "silent (snd (main D w a)) = snd (main None w a)"
    by (simp add: main_invalid(1)[OF False] silent_getargs)
  moreover have "fst (main D w a) = fst (main None w a)"
    by (simp add: main_invalid_status[OF False])
  ultimately show ?thesis by (simp add: behaviour_def prod_eq_iff)
next
  case True
  then obtain pk srv hn where v: "arg_privkey a = Some pk" "arg_server a = Some srv"
    "arg_hostname a = Some hn" "isfile w pk"
    by (rule config_validE)
  have a: "fst (getargs D a) = fst (getargs None a)" by (rule getargs_debug_free)
  have e0: "snd (getargs None a) = []" by (simp add: getargs_def Let_def dbg_def truthy_def)
  let ?url = "arg_remoteiplookup (fst (getargs None a))"
  note r1 = get_remote_ip_debug[of D w ?url "arg_dnstype a"]
  note r2 = get_current_ips_debug[of D w hn srv "arg_dnstype a"]
  show ?thesis
  proof (cases "fst (get_remote_ip None w ?url (arg_dnstype a))")
    case None
    then show ?thesis
      using v r1 by (simp add: behaviour_def main_valid Let_def a e0 silent_getargs)
  next
    case (Some ip)
    note su = send_update_debug[of D w "fst (getargs None a)" pk srv hn ip]
    show ?thesis
      using v r1 r2 su Some
      by (simp add: behaviour_def main_valid Let_def a e0 silent_getargs)
  qed
qed

section \<open>The concrete run, evaluated\<close>

lemma ex_fields [simp]:
  "arg_exe (ex_args f d) = ''/usr/bin/nsupdate''"
  "arg_privkey (ex_args f d) = Some ''/etc/ddns.key''"
  "arg_server (ex_args f d) = Some ''192.0.2.53''"
  "arg_hostname (ex_args f d) = Some ''host.example.com''"
  "arg_dnstype (ex_args f d) = ''A''"
  "arg_force (ex_args f d) = f"
  "arg_deleteonly (ex_args f d) = d"
  "arg_ttl (ex_args f d) = 300"
  "arg_remoteiplookup (fst (getargs D (ex_args f d))) = Some ''https://api.ipify.org''"
  "isfile (ex_world body answer result) p = (p = ''/etc/ddns.key'')"
  "http_get (ex_world body answer result) url = body"
  "dns_lookup (ex_world body answer result) srv name = answer"
  "tmpname (ex_world body answer result) = ''/tmp/tmpk3x9''"
  "subprocess (ex_world body answer result) cmd = result"
  "snd (getargs None a) = []"
  by (simp_all add: ex_args_def ex_world_def getargs_def Let_def)

lemma ex_is_ipv4: "is_ipv4 ''198.51.100.7''" "is_ipv4 ''192.0.2.53''"
  by (simp_all add: is_ipv4_def rx_group_dot_def rx_end_def py_isdigit_def eval_nat_numeral)

lemma ex_strip: "strip ex_body = ''198.51.100.7''"
  by (simp add: ex_body_def strip_def py_isspace_def NL_def)

lemma ex_zone: "zone_of ''host.example.com'' = ''example.com''"
  by (simp add: zone_of_def)

lemma ex_remote_ip:
  "get_remote_ip None (ex_world (Inr ex_body) answer result)
     (Some ''https://api.ipify.org'') ''A''
   = (Some ''198.51.100.7'', [HttpGet ''https://api.ipify.org''])"
  by (simp add: get_remote_ip_def get_remote_ip_try_def ex_strip is_ip_def ex_is_ipv4)

lemma ex_current_ips:
  "get_current_ips None (ex_world body (Inr [''198.51.100.7'']) result)
     ''host.example.com'' ''192.0.2.53'' ''A''
   = ([''198.51.100.7''], [DnsLookup ''192.0.2.53'' ''host.example.com''])"
  "get_current_ips None (ex_world body (Inl DNSError) result)
     ''host.example.com'' ''192.0.2.53'' ''A''
   = ([], [DnsLookup ''192.0.2.53'' ''host.example.com''])"
  by (simp_all add: get_current_ips_def get_current_ips_try_def resolve_server_def is_ip_def
        ex_is_ipv4)

text \<open>
  Three runs with \<open>IPDEBUG\<close> unset and the remote address \<open>198.51.100.7\<close>: the
  record already holds that address; the record lookup fails and the subprocess
  completes; the record lookup fails and the subprocess cannot be launched.
\<close>

lemma ex_run_unchanged:
  "main None (ex_world (Inr ex_body) (Inr [''198.51.100.7'']) result)
     (ex_args False False)
   = (ExitOK, [HttpGet ''https://api.ipify.org'',
               DnsLookup ''192.0.2.53'' ''host.example.com''])"
  by (simp add: main_valid ex_remote_ip ex_current_ips unchanged_def Let_def)

lemma ex_run_completed:
  "main None (ex_world (Inr ex_body) (Inl DNSError) (Inr (out, err, rc)))
     (ex_args False False)
   = (if rc \<noteq> 0 then ExitMsg ''ERROR: nsupdate failed - %s / %s'' [Bytes out, Bytes err]
      else ExitOK,
      [HttpGet ''https://api.ipify.org'',
       DnsLookup ''192.0.2.53'' ''host.example.com'',
       TempWrite ''/tmp/tmpk3x9''
         (nsupdate_content ''192.0.2.53'' ''example.com'' ''host.example.com'' ''198.51.100.7''
            300 ''A'' False),
       Popen [''/usr/bin/nsupdate'', ''-k'', ''/etc/ddns.key'', ''-v'', ''/tmp/tmpk3x9''],
       Remove ''/tmp/tmpk3x9''])"
  by (simp add: main_valid ex_remote_ip ex_current_ips unchanged_def Let_def
        send_update_completed nsupdate_cmd_def ex_zone)

lemma ex_run_failed_launch:
  "main None (ex_world (Inr ex_body) (Inl DNSError) (Inl OSError))
     (ex_args False False)
   = (Uncaught OSError,
      [HttpGet ''https://api.ipify.org'',
       DnsLookup ''192.0.2.53'' ''host.example.com'',
       TempWrite ''/tmp/tmpk3x9''
         (nsupdate_content ''192.0.2.53'' ''example.com'' ''host.example.com'' ''198.51.100.7''
            300 ''A'' False),
       Popen [''/usr/bin/nsupdate'', ''-k'', ''/etc/ddns.key'', ''-v'', ''/tmp/tmpk3x9'']])"
  by (simp add: main_valid ex_remote_ip ex_current_ips unchanged_def Let_def
        send_update_failed_launch nsupdate_cmd_def ex_zone)

section \<open>The claims of the specification\<close>

subsection \<open>C1: the change decision\<close>

text \<open>
  Claim C1. In a run that passes the two guards and obtains the remote address \<open>ip\<close>,
  with \<open>cur\<close> the list returned by \<open>get_current_ips\<close>: the run both writes the
  payload for \<open>ip\<close> to the temporary file and launches \<open>nsupdate\<close> on that file exactly
  when \<open>deleteonly\<close> is set, or \<open>force\<close> is set, or \<open>{ip}\<close> differs from the set of
  \<open>cur\<close>; otherwise it neither writes the file nor launches anything and exits with
  status 0. The condition depends on \<open>ip\<close>, the set of \<open>cur\<close> and the two flags
  only: on \<open>(ip, [ip])\<close> it asks for an update only if a flag is set, on \<open>(ip, [])\<close>
  and on \<open>(ip, [other])\<close> with \<open>other \<noteq> ip\<close> it always does.
\<close>

theorem change_decision:
  assumes "arg_privkey a = Some pk" "arg_server a = Some srv" "arg_hostname a = Some hn"
    and "isfile w pk"
    and "fst (get_remote_ip D w (arg_remoteiplookup (fst (getargs D a))) (arg_dnstype a)) = Some ip"
    and "cur = fst (get_current_ips D w hn srv (arg_dnstype a))"
  shows "((TempWrite (tmpname w)
             (nsupdate_content srv (zone_of hn) hn ip (arg_ttl a) (arg_dnstype a) (arg_deleteonly a))
             \<in> set (snd (main D w a))
           \<and> Popen [arg_exe a, ''-k'', pk, ''-v'', tmpname w] \<in> set (snd (main D w a)))
            \<longleftrightarrow> arg_deleteonly a \<or> arg_force a \<or> {ip} \<noteq> set cur)
       \<and> (list_ex is_update (snd (main D w a))
            \<longleftrightarrow> arg_deleteonly a \<or> arg_force a \<or> {ip} \<noteq> set cur)
       \<and> (\<not> (arg_deleteonly a \<or> arg_force a \<or> {ip} \<noteq> set cur) \<longrightarrow> fst (main D w a) = ExitOK)
       \<and> (\<not> unchanged ip cur' f d \<longleftrightarrow> d \<or> f \<or> {ip} \<noteq> set cur')
       \<and> (\<not> unchanged ip [ip] f d \<longleftrightarrow> f \<or> d)
       \<and> \<not> unchanged ip [] f d
       \<and> (other \<noteq> ip \<longrightarrow> \<not> unchanged ip [other] f d)"
proof -
  let ?ev = "snd (main D w a)"
  let ?cond = "arg_deleteonly a \<or> arg_force a \<or> {ip} \<noteq> set cur"
  let ?T = "TempWrite (tmpname w)
             (nsupdate_content srv (zone_of hn) hn ip (arg_ttl a) (arg_dnstype a) (arg_deleteonly a))"
  let ?P = "Popen [arg_exe a, ''-k'', pk, ''-v'', tmpname w]"
  have u: "\<not> unchanged ip cur (arg_force a) (arg_deleteonly a) \<longleftrightarrow> ?cond"
    by (auto simp: unchanged_iff)
  have any: "list_ex is_update ?ev \<longleftrightarrow> ?cond"
    using main_update_iff(1)[OF assms(1-5)] assms(6) u by simp
  have ok: "\<not> ?cond \<Longrightarrow> fst (main D w a) = ExitOK"
    using main_update_iff(2)[OF assms(1-5)] assms(6) u by simp
  have both: "?cond \<Longrightarrow> ?T \<in> set ?ev \<and> ?P \<in> set ?ev"
    using main_update_events[OF assms(1-5)] assms(6) u by (simp add: nsupdate_cmd_def)
  have none: "?T \<in> set ?ev \<Longrightarrow> ?cond"
  proof -
    assume "?T \<in> set ?ev"
    moreover have "is_update ?T" by simp
    ultimately have "list_ex is_update ?ev" unfolding list_ex_iff by blast
    with any show ?cond by simp
  qed
  have main_part: "(?T \<in> set ?ev \<and> ?P \<in> set ?ev) \<longleftrightarrow> ?cond"
    using both none by blast
  have rest: "(\<not> unchanged ip cur' f d \<longleftrightarrow> d \<or> f \<or> {ip} \<noteq> set cur')
       \<and> (\<not> unchanged ip [ip] f d \<longleftrightarrow> f \<or> d)
       \<and> \<not> unchanged ip [] f d
       \<and> (other \<noteq> ip \<longrightarrow> \<not> unchanged ip [other] f d)"
    by (auto simp: unchanged_iff)
  from main_part any ok rest show ?thesis by blast
qed

text \<open>
  The two end-to-end runs of the specification: record equal to the remote address, no
  update and exit status 0; record lookup failed, the payload written and the
  subprocess launched.
\<close>

theorem change_decision_witness:
  "\<not> list_ex is_update
       (snd (main None (ex_world (Inr ex_body) (Inr [''198.51.100.7''])
                         (Inr ([], [], 0))) (ex_args False False)))
   \<and> fst (main None (ex_world (Inr ex_body) (Inr [''198.51.100.7''])
                       (Inr ([], [], 0))) (ex_args False False)) = ExitOK
   \<and> TempWrite ''/tmp/tmpk3x9''
        (nsupdate_content ''192.0.2.53'' ''example.com'' ''host.example.com'' ''198.51.100.7''
           300 ''A'' False)
       \<in> set (snd (main None (ex_world (Inr ex_body) (Inl DNSError)
                                (Inr ([], [], 0))) (ex_args False False)))
   \<and> Popen [''/usr/bin/nsupdate'', ''-k'', ''/etc/ddns.key'', ''-v'', ''/tmp/tmpk3x9'']
       \<in> set (snd (main None (ex_world (Inr ex_body) (Inl DNSError)
                                (Inr ([], [], 0))) (ex_args False False)))"
proof -
  let ?W1 = "ex_world (Inr ex_body) (Inr [''198.51.100.7'']) (Inr ([], [], 0))"
  let ?W2 = "ex_world (Inr ex_body) (Inl DNSError) (Inr ([], [], 0))"
  let ?A = "ex_args False False"
  have a: "arg_privkey ?A = Some ''/etc/ddns.key''" "arg_server ?A = Some ''192.0.2.53''"
    "arg_hostname ?A = Some ''host.example.com''"
    by simp_all
  have k1: "isfile ?W1 ''/etc/ddns.key''" and k2: "isfile ?W2 ''/etc/ddns.key''"
    by simp_all
  have r1: "fst (get_remote_ip None ?W1 (arg_remoteiplookup (fst (getargs None ?A))) (arg_dnstype ?A))
              = Some ''198.51.100.7''"
    and r2: "fst (get_remote_ip None ?W2 (arg_remoteiplookup (fst (getargs None ?A))) (arg_dnstype ?A))
              = Some ''198.51.100.7''"
    by (simp_all add: ex_remote_ip)
  have c1: "[''198.51.100.7''] = fst (get_current_ips None ?W1 ''host.example.com'' ''192.0.2.53'' (arg_dnstype ?A))"
    and c2: "[] = fst (get_current_ips None ?W2 ''host.example.com'' ''192.0.2.53'' (arg_dnstype ?A))"
    by (simp_all add: ex_current_ips)
  from change_decision[OF a k1 r1 c1, of "[]" False False "''198.51.100.7''"]
       change_decision[OF a k2 r2 c2, of "[]" False False "''198.51.100.7''"]
  show ?thesis by (simp add: ex_zone)
qed

subsection \<open>C2: the temporary file\<close>

text \<open>
  Claim C2 says that the temporary file is deleted on every exit path, also when the
  subprocess cannot be launched. The code does not do that: \<open>os.remove\<close> follows the
  call of \<open>run_nsupdate\<close>, so when \<open>Popen\<close> raises, the exception leaves \<open>main\<close>
  before \<open>os.remove\<close> is reached. In the run below the subprocess cannot be launched:
  the run ends with the uncaught exception and the temporary file is still on disk.
\<close>

theorem temp_file_left_when_launch_fails:
  "snd (main None (ex_world (Inr ex_body) (Inl DNSError) (Inl OSError))
          (ex_args False False))
   = [HttpGet ''https://api.ipify.org'',
      DnsLookup ''192.0.2.53'' ''host.example.com'',
      TempWrite ''/tmp/tmpk3x9''
        (nsupdate_content ''192.0.2.53'' ''example.com'' ''host.example.com'' ''198.51.100.7''
           300 ''A'' False),
      Popen [''/usr/bin/nsupdate'', ''-k'', ''/etc/ddns.key'', ''-v'', ''/tmp/tmpk3x9'']]
   \<and> fst (main None (ex_world (Inr ex_body) (Inl DNSError) (Inl OSError))
            (ex_args False False)) = Uncaught OSError
   \<and> tmp_files (snd (main None (ex_world (Inr ex_body) (Inl DNSError) (Inl OSError))
                       (ex_args False False))) [] = [''/tmp/tmpk3x9'']"
  by (simp add: ex_run_failed_launch)

text \<open>
  The other failure path does remove the file: \<open>os.remove\<close> stands before the test of
  the return code, so whenever the subprocess is launched and completes, with return
  code zero or not, no temporary file is left when the process exits.
\<close>

theorem temp_file_removed_after_subprocess:
  assumes "TempWrite f c \<in> set (snd (main D w a))"
    and "Popen cmd \<in> set (snd (main D w a))"
    and "subprocess w cmd = Inr res"
  shows "tmp_files (snd (main D w a)) [] = []"
proof -
  from assms(2) obtain pk srv hn ip pre where m: "list_all quiet pre"
    "cmd = nsupdate_cmd w a pk"
    "main D w a = (fst (send_update D w (fst (getargs D a)) pk srv hn ip),
                   pre @ snd (send_update D w (fst (getargs D a)) pk srv hn ip))"
    by (rule main_popen)
  then show ?thesis
    using assms(3) by (simp add: tmp_files_append tmp_files_quiet send_update_tmp_files)
qed

theorem temp_file_removed_after_subprocess_witness:
  "tmp_files (snd (main None (ex_world (Inr ex_body) (Inl DNSError)
                               (Inr (''out'', ''err'', 2))) (ex_args False False))) [] = []"
proof -
  let ?W = "ex_world (Inr ex_body) (Inl DNSError) (Inr (''out'', ''err'', 2))"
  let ?cmd = "[''/usr/bin/nsupdate'', ''-k'', ''/etc/ddns.key'', ''-v'', ''/tmp/tmpk3x9'']"
  have t: "TempWrite ''/tmp/tmpk3x9''
             (nsupdate_content ''192.0.2.53'' ''example.com'' ''host.example.com'' ''198.51.100.7''
                300 ''A'' False)
           \<in> set (snd (main None ?W (ex_args False False)))"
    by (simp add: ex_run_completed)
  have p: "Popen ?cmd \<in> set (snd (main None ?W (ex_args False False)))"
    by (simp add: ex_run_completed)
  have s: "subprocess ?W ?cmd = Inr (''out'', ''err'', 2)"
    by simp
  from temp_file_removed_after_subprocess[OF t p s] show ?thesis .
qed

subsection \<open>C3: the payload\<close>

text \<open>
  Claim C3, as stated, fails for \<open>deleteonly\<close>: the payload is not the seven lines
  \<open>server\<close>, \<open>debug yes\<close>, \<open>zone\<close>, \<open>update delete\<close>, \<open>show\<close>, \<open>send\<close>,
  \<open>quit\<close> joined by newlines, because the line of the add directive is still there,
  empty.
\<close>

theorem payload_deleteonly_has_blank_line:
  "nsupdate_content ''ns1.example.net'' ''example.com'' ''host.example.com'' ''203.0.113.5'' 300 ''A'' True
     \<noteq> join [NL]
          [''server ns1.example.net.'',
           ''debug yes'',
           ''zone example.com.'',
           ''update delete host.example.com. A'',
           ''show'', ''send'', ''quit'']"
  by (simp add: nsupdate_content_def NL_def)

text \<open>
  Claim C3, amended. For all arguments the payload is eight lines joined by newlines:
  \<open>server <server>.\<close>, \<open>debug yes\<close>, \<open>zone <domain>.\<close>,
  \<open>update delete <hostname>. <TYPE>\<close>, then one line that is
  \<open>update add <hostname>. <ttl> <TYPE> <ip>\<close> when \<open>deleteonly\<close> is false and the empty
  line when it is true, then \<open>show\<close>, \<open>send\<close>, \<open>quit\<close>. With \<open>deleteonly\<close> the
  payload does not depend on the new address. The payload is what is written to the
  temporary file, \<open>main\<close> passes \<open>zone_of hostname\<close> as the domain, and \<open>zone_of\<close>
  removes the first label of the host name and the dot after it.
\<close>

theorem payload_format:
  "nsupdate_content server domain hostname newip ttl dnstype deleteonly =
     join [NL]
       [''server '' @ server @ ''.'',
        ''debug yes'',
        ''zone '' @ domain @ ''.'',
        ''update delete '' @ hostname @ ''. '' @ dnstype,
        (if deleteonly then []
         else ''update add '' @ hostname @ ''. '' @ str_int ttl @ '' '' @ dnstype @ '' '' @ newip),
        ''show'', ''send'', ''quit'']
   \<and> nsupdate_content server domain hostname newip ttl dnstype True =
       nsupdate_content server domain hostname newip' ttl dnstype True
   \<and> fst (create_nsupdate_contents D w server domain hostname newip ttl dnstype deleteonly)
       = tmpname w
   \<and> TempWrite (tmpname w) (nsupdate_content server domain hostname newip ttl dnstype deleteonly)
       \<in> set (snd (create_nsupdate_contents D w server domain hostname newip ttl dnstype deleteonly))
   \<and> TempWrite (tmpname w)
        (nsupdate_content srv (zone_of hn) hn ip (arg_ttl a) (arg_dnstype a) (arg_deleteonly a))
       \<in> set (snd (send_update D w a pk srv hn ip))
   \<and> (CHR ''.'' \<notin> set label \<longrightarrow> zone_of (label @ ''.'' @ rest) = rest)"
  using send_update_payload[of w srv hn ip a D pk] zone_of_strips_label[of label rest]
  by (simp add: nsupdate_content_def create_nsupdate_contents_def Let_def)

text \<open>
  The example of the specification, with and without \<open>deleteonly\<close>.
\<close>

theorem payload_format_witness:
  "nsupdate_content ''ns1.example.net'' ''example.com'' ''host.example.com'' ''203.0.113.5'' 300 ''A'' False =
     join [NL]
       [''server ns1.example.net.'',
        ''debug yes'',
        ''zone example.com.'',
        ''update delete host.example.com. A'',
        ''update add host.example.com. 300 A 203.0.113.5'',
        ''show'', ''send'', ''quit'']
   \<and> nsupdate_content ''ns1.example.net'' ''example.com'' ''host.example.com'' ''203.0.113.5'' 300 ''A'' True =
     join [NL]
       [''server ns1.example.net.'',
        ''debug yes'',
        ''zone example.com.'',
        ''update delete host.example.com. A'',
        [],
        ''show'', ''send'', ''quit'']
   \<and> CHR ''.'' \<notin> set ''host'' \<and> zone_of ''host.example.com'' = ''example.com''"
  using payload_format[of "''ns1.example.net''" "''example.com''" "''host.example.com''"
          "''203.0.113.5''" 300 "''A''" False "''203.0.113.5''" None
          "ex_world (Inl HTTPError) (Inl DNSError) (Inl OSError)"
          "''ns1.example.net''" "''host.example.com''" "''203.0.113.5''" "ex_args False False"
          "''/etc/ddns.key''" "''host''" "''example.com''"]
        payload_format[of "''ns1.example.net''" "''example.com''" "''host.example.com''"
          "''203.0.113.5''" 300 "''A''" True "''203.0.113.5''" None
          "ex_world (Inl HTTPError) (Inl DNSError) (Inl OSError)"
          "''ns1.example.net''" "''host.example.com''" "''203.0.113.5''" "ex_args False False"
          "''/etc/ddns.key''" "''host''" "''example.com''"]
  by (simp add: str_int_300)

subsection \<open>C4: the remote address fetch\<close>

text \<open>
  Claim C4. \<open>get_remote_ip\<close> returns a value for every input: \<open>None\<close> when the
  request or the decoding raises, when the stripped body is not accepted by \<open>is_ip\<close> for
  the record type, or when \<open>is_ip\<close> itself raises; otherwise the stripped body. Whenever
  it returns \<open>None\<close>, the run ends with a non-zero exit status and neither writes the
  temporary file nor launches the subprocess.
\<close>

theorem remote_fetch_never_raises:
  "fst (get_remote_ip D w (Some url) t) =
     (case http_get w url of
        Inl e \<Rightarrow> None
      | Inr body \<Rightarrow> if is_ip (strip body) t = Inr True then Some (strip body) else None)
   \<and> fst (get_remote_ip D w None t) = None
   \<and> (fst (get_remote_ip D w (arg_remoteiplookup (fst (getargs D a))) (arg_dnstype a)) = None
        \<longrightarrow> exit_code (fst (main D w a)) \<noteq> 0 \<and> \<not> list_ex is_update (snd (main D w a)))"
  using get_remote_ip_result[of D w url t] get_remote_ip_no_url[of D w t] main_no_remote_ip[of D w a]
  by simp

theorem remote_fetch_never_raises_witness:
  "fst (get_remote_ip None (ex_world (Inl HTTPError) (Inl DNSError) (Inl OSError))
          (Some ''https://api.ipify.org'') ''A'') = None
   \<and> exit_code (fst (main None (ex_world (Inl HTTPError) (Inl DNSError) (Inl OSError))
                       (ex_args False False))) \<noteq> 0
   \<and> \<not> list_ex is_update (snd (main None (ex_world (Inl HTTPError) (Inl DNSError) (Inl OSError))
                                   (ex_args False False)))"
  using remote_fetch_never_raises[of None "ex_world (Inl HTTPError) (Inl DNSError) (Inl OSError)"
          "''https://api.ipify.org''" "''A''" "ex_args False False"]
  by simp

subsection \<open>C5: the current record fetch\<close>

text \<open>
  Claim C5. \<open>get_current_ips\<close> returns a value for every input: the empty list when
  resolving the server name fails (\<open>getaddrinfo\<close> raises or returns nothing), when the
  query raises, or when some returned record is not accepted by \<open>is_ip\<close> for the record
  type; otherwise the answer. A run in which it returns the empty list goes on to send
  the update, with the exit status that \<open>send_update\<close> gives.
\<close>

theorem current_fetch_degrades_to_empty:
  "fst (get_current_ips D w hn srv t) =
     (case fst (resolve_server D w srv) of
        Inl e \<Rightarrow> []
      | Inr s \<Rightarrow>
          (case (if t = ''A'' then dns_lookup w s hn else dns_lookup6 w s hn) of
             Inl e \<Rightarrow> []
           | Inr ips \<Rightarrow> if list_all (\<lambda>ip. is_ip ip t = Inr True) ips then ips else []))
   \<and> fst (resolve_server D w srv) =
     (case is_ip srv ''ANY'' of
        Inl e \<Rightarrow> Inl e
      | Inr literal \<Rightarrow>
          if literal then Inr srv
          else (case getaddrinfo w srv of
                  Inl e \<Rightarrow> Inl e
                | Inr addrs \<Rightarrow> if addrs = [] then Inl IndexError else Inr (last addrs)))
   \<and> (arg_privkey a = Some pk \<and> arg_server a = Some srv \<and> arg_hostname a = Some hn
        \<and> isfile w pk
        \<and> fst (get_remote_ip D w (arg_remoteiplookup (fst (getargs D a))) (arg_dnstype a)) = Some ip
        \<and> fst (get_current_ips D w hn srv (arg_dnstype a)) = []
      \<longrightarrow> list_ex is_update (snd (main D w a))
          \<and> fst (main D w a) = fst (send_update D w (fst (getargs D a)) pk srv hn ip))"
proof (intro conjI impI)
  show "fst (get_current_ips D w hn srv t) =
     (case fst (resolve_server D w srv) of
        Inl e \<Rightarrow> []
      | Inr s \<Rightarrow>
          (case (if t = ''A'' then dns_lookup w s hn else dns_lookup6 w s hn) of
             Inl e \<Rightarrow> []
           | Inr ips \<Rightarrow> if list_all (\<lambda>ip. is_ip ip t = Inr True) ips then ips else []))"
    by (rule get_current_ips_result)
  show "fst (resolve_server D w srv) =
     (case is_ip srv ''ANY'' of
        Inl e \<Rightarrow> Inl e
      | Inr literal \<Rightarrow>
          if literal then Inr srv
          else (case getaddrinfo w srv of
                  Inl e \<Rightarrow> Inl e
                | Inr addrs \<Rightarrow> if addrs = [] then Inl IndexError else Inr (last addrs)))"
    by (rule resolve_server_result)
next
  assume h: "arg_privkey a = Some pk \<and> arg_server a = Some srv \<and> arg_hostname a = Some hn
        \<and> isfile w pk
        \<and> fst (get_remote_ip D w (arg_remoteiplookup (fst (getargs D a))) (arg_dnstype a)) = Some ip
        \<and> fst (get_current_ips D w hn srv (arg_dnstype a)) = []"
  then show "list_ex is_update (snd (main D w a))"
    using main_no_current_record[of a pk srv hn w D ip] by blast
  from h show "fst (main D w a) = fst (send_update D w (fst (getargs D a)) pk srv hn ip)"
    using main_no_current_record[of a pk srv hn w D ip] by blast
qed

theorem current_fetch_degrades_to_empty_witness:
  "fst (get_current_ips None (ex_world (Inr ex_body) (Inl DNSError) (Inr ([], [], 0)))
          ''host.example.com'' ''192.0.2.53'' ''A'') = []
   \<and> list_ex is_update
        (snd (main None (ex_world (Inr ex_body) (Inl DNSError) (Inr ([], [], 0)))
                (ex_args False False)))"
  using current_fetch_degrades_to_empty[of None
          "ex_world (Inr ex_body) (Inl DNSError) (Inr ([], [], 0))"
          "''host.example.com''" "''192.0.2.53''" "''A''" "ex_args False False"
          "''/etc/ddns.key''" "''198.51.100.7''"]
  by (simp add: ex_remote_ip ex_current_ips)

subsection \<open>C6: configuration is checked before any network action\<close>

text \<open>
  Claim C6. When \<open>privkey\<close>, \<open>server\<close> or \<open>hostname\<close> is missing, or \<open>privkey\<close>
  is not an existing file, the run ends with a non-zero exit status and its events hold
  no HTTP request, no name resolution and no DNS query: all it may do is print.
\<close>

theorem config_checked_before_network:
  assumes "arg_privkey a = None \<or> arg_server a = None \<or> arg_hostname a = None
           \<or> (\<exists>pk. arg_privkey a = Some pk \<and> \<not> isfile w pk)"
  shows "exit_code (fst (main D w a)) \<noteq> 0
       \<and> \<not> list_ex is_network (snd (main D w a))
       \<and> list_all is_print (snd (main D w a))"
proof -
  from assms have inv: "\<not> config_valid w a"
    by (auto simp: config_valid_def split: option.splits)
  have "snd (main D w a) = snd (getargs D a)" by (rule main_invalid(1)[OF inv])
  moreover have "list_all is_print (snd (getargs D a))"
    by (simp add: getargs_def Let_def dbg_def)
  moreover have "\<And>es. list_all is_print es \<Longrightarrow> \<not> list_ex is_network es"
  proof -
    fix es show "list_all is_print es \<Longrightarrow> \<not> list_ex is_network es"
      by (induction es) (auto elim: is_print.elims)
  qed
  ultimately show ?thesis using main_invalid_status[OF inv, of D] by simp
qed

theorem config_checked_before_network_witness:
  "exit_code (fst (main None (ex_world (Inr ex_body) (Inr []) (Inr ([], [], 0)))
                     ((ex_args False False)\<lparr>arg_hostname := None\<rparr>))) \<noteq> 0
   \<and> \<not> list_ex is_network
         (snd (main None (ex_world (Inr ex_body) (Inr []) (Inr ([], [], 0)))
                 ((ex_args False False)\<lparr>arg_hostname := None\<rparr>)))
   \<and> exit_code (fst (main None (ex_world (Inr ex_body) (Inr []) (Inr ([], [], 0)))
                     ((ex_args False False)\<lparr>arg_privkey := Some ''/no/such.key''\<rparr>))) \<noteq> 0
   \<and> \<not> list_ex is_network
         (snd (main None (ex_world (Inr ex_body) (Inr []) (Inr ([], [], 0)))
                 ((ex_args False False)\<lparr>arg_privkey := Some ''/no/such.key''\<rparr>)))"
  using config_checked_before_network[of "(ex_args False False)\<lparr>arg_hostname := None\<rparr>"
          "ex_world (Inr ex_body) (Inr []) (Inr ([], [], 0))" None]
        config_checked_before_network[of "(ex_args False False)\<lparr>arg_privkey := Some ''/no/such.key''\<rparr>"
          "ex_world (Inr ex_body) (Inr []) (Inr ([], [], 0))" None]
  by simp

subsection \<open>C7: classification by address family\<close>

text \<open>
  Claim C7 says that validation for type \<open>A\<close> requires the dotted-quad shape. The four
  examples of the claim hold (\<open>address_family_examples\<close>), but the pattern ends in \<open>$\<close>,
  which also matches before a final newline: \<open>is_ip\<close> accepts \<open>1.2.3.4\<close> followed by a
  newline for type \<open>A\<close> and for type \<open>ANY\<close>, so that \<open>resolve_server\<close> takes such a
  server argument for an address literal. No dotted quad ends in a newline
  (\<open>newline_not_dotted_quad\<close>).
\<close>

theorem is_ip_accepts_trailing_newline:
  "is_ipv4 (''1.2.3.4'' @ [NL])
   \<and> is_ip (''1.2.3.4'' @ [NL]) ''A'' = Inr True
   \<and> is_ip (''1.2.3.4'' @ [NL]) ''ANY'' = Inr True
   \<and> resolve_server None (ex_world (Inl HTTPError) (Inl DNSError) (Inl OSError))
         (''1.2.3.4'' @ [NL]) = (Inr (''1.2.3.4'' @ [NL]), [])"
  using is_ipv4_examples(3)
  by (simp add: is_ip_def resolve_server_def)

subsection \<open>C8: the IPv4 validator checks the pattern only\<close>

text \<open>
  Claim C8. Every string made of four dot-separated groups of one to three decimal
  digits is accepted by \<open>is_ipv4\<close>, whatever the numbers are; \<open>is_ip\<close> accepts it for
  type \<open>A\<close> and for type \<open>ANY\<close>, and \<open>resolve_server\<close> returns it unchanged without
  resolving it.
\<close>

theorem ipv4_validator_pattern_only:
  assumes "digit_group g1" "digit_group g2" "digit_group g3" "digit_group g4"
  shows "is_ipv4 (dotted_quad g1 g2 g3 g4)
       \<and> is_ip (dotted_quad g1 g2 g3 g4) ''A'' = Inr True
       \<and> is_ip (dotted_quad g1 g2 g3 g4) ''ANY'' = Inr True
       \<and> resolve_server D w (dotted_quad g1 g2 g3 g4) = (Inr (dotted_quad g1 g2 g3 g4), [])"
  using is_ipv4_dotted_quad[OF assms]
  by (simp add: is_ip_def resolve_server_def)

theorem ipv4_validator_pattern_only_witness:
  "digit_group ''999'' \<and> digit_group ''1''
   \<and> is_ipv4 ''999.1.1.1'' \<and> is_ipv4 ''999.999.999.999''
   \<and> is_ip ''999.1.1.1'' ''A'' = Inr True
   \<and> is_ip ''999.999.999.999'' ''ANY'' = Inr True
   \<and> resolve_server None (ex_world (Inl HTTPError) (Inl DNSError) (Inl OSError)) ''999.999.999.999''
       = (Inr ''999.999.999.999'', [])"
proof -
  have a: "digit_group ''999''" and b: "digit_group ''1''"
    by (simp_all add: digit_group_def py_isdigit_def)
  from ipv4_validator_pattern_only[OF a b b b, of None "ex_world (Inl HTTPError) (Inl DNSError) (Inl OSError)"]
       ipv4_validator_pattern_only[OF a a a a, of None "ex_world (Inl HTTPError) (Inl DNSError) (Inl OSError)"]
       a b
  show ?thesis by (simp add: dotted_quad_def)
qed

subsection \<open>C9: the status of the subprocess\<close>

text \<open>
  Claim C9. In a run that launches the subprocess, if the subprocess completes with a
  non-zero return code the run ends through \<open>sys.exit\<close> with the message
  \<open>"ERROR: nsupdate failed - %s / %s" % (stdout, stderr)\<close>, which has exit status 1; if it
  completes with return code 0 the run ends with exit status 0.
\<close>

theorem nsupdate_status_surfaced:
  assumes "Popen cmd \<in> set (snd (main D w a))"
    and "subprocess w cmd = Inr (out, err, rc)"
  shows "(rc \<noteq> 0 \<longrightarrow>
            fst (main D w a) = ExitMsg ''ERROR: nsupdate failed - %s / %s'' [Bytes out, Bytes err]
            \<and> exit_code (fst (main D w a)) \<noteq> 0)
       \<and> (rc = 0 \<longrightarrow> fst (main D w a) = ExitOK \<and> exit_code (fst (main D w a)) = 0)"
proof -
  from assms(1) obtain pk srv hn ip pre where m: "cmd = nsupdate_cmd w a pk"
    "main D w a = (fst (send_update D w (fst (getargs D a)) pk srv hn ip),
                   pre @ snd (send_update D w (fst (getargs D a)) pk srv hn ip))"
    by (rule main_popen)
  with assms(2) have "subprocess w (nsupdate_cmd w (fst (getargs D a)) pk) = Inr (out, err, rc)"
    by simp
  from send_update_completed[OF this, of D srv hn ip] m(2) show ?thesis by simp
qed

theorem nsupdate_status_surfaced_witness:
  "fst (main None (ex_world (Inr ex_body) (Inl DNSError) (Inr (''out'', ''err'', 2)))
          (ex_args False False))
     = ExitMsg ''ERROR: nsupdate failed - %s / %s'' [Bytes ''out'', Bytes ''err'']
   \<and> fst (main None (ex_world (Inr ex_body) (Inl DNSError) (Inr (''out'', ''err'', 0)))
          (ex_args False False))
     = ExitOK"
proof -
  let ?W = "\<lambda>rc. ex_world (Inr ex_body) (Inl DNSError) (Inr (''out'', ''err'', rc))"
  let ?cmd = "[''/usr/bin/nsupdate'', ''-k'', ''/etc/ddns.key'', ''-v'', ''/tmp/tmpk3x9'']"
  have p: "Popen ?cmd \<in> set (snd (main None (?W rc) (ex_args False False)))" for rc
    by (simp add: ex_run_completed)
  have s: "subprocess (?W rc) ?cmd = Inr (''out'', ''err'', rc)" for rc
    by simp
  from nsupdate_status_surfaced[OF p s, of 2] nsupdate_status_surfaced[OF p s, of 0]
  show ?thesis by simp
qed

subsection \<open>C10: the debug toggle\<close>

text \<open>
  Claim C10. Two runs that differ only in the value of \<open>IPDEBUG\<close> have the same
  exit status and the same events apart from printing: the same requests and queries,
  the same payload written, the same command launched, the same file removed.
\<close>

theorem debug_toggle_only_prints:
  "behaviour (main D1 w a) = behaviour (main D2 w a)"
  by (simp add: main_debug)

theorem debug_toggle_only_prints_witness:
  "behaviour (main (Some ''1'') (ex_world (Inr ex_body) (Inl DNSError)
                                   (Inr (''out'', ''err'', 2))) (ex_args False True))
   = behaviour (main None (ex_world (Inr ex_body) (Inl DNSError)
                             (Inr (''out'', ''err'', 2))) (ex_args False True))"
  by (rule debug_toggle_only_prints)

end
